theory Spec2Isabelle
  imports Complex_Main
begin

section \<open>Exceptions\<close>

text \<open>
  Every exception the script can raise is a value. \<open>LoadFailed s\<close> is the
  \<^verbatim>\<open>Exception(f"Failed to load page: {response.status_code}")\<close> of \<open>extract\<close>; the others
  are Python's built-in exceptions. \<open>OutsideModel\<close> marks the two places where pandas is
  handed a value whose treatment this development does not describe (a cell value that
  is an element with an element among its children, and frames with repeated column
  names).
\<close>

datatype error =
    LoadFailed int
  | ConnectionError
  | IndexError
  | KeyError
  | AttributeError
  | ValueError
  | OutsideModel

section \<open>Strings\<close>

text \<open>
  A Python \<open>str\<close> is modelled as a \<open>string\<close>; a character outside ASCII stands as the
  bytes of its UTF-8 encoding. The script only compares strings, splits them at the
  ASCII comma and concatenates them, and these operations give the same answer on code
  points and on UTF-8 bytes. The missing-data marker is the em dash, U+2014.
\<close>

definition em_dash :: string where
  "em_dash = [CHR 0xE2, CHR 0x80, CHR 0x94]"

text \<open>\<^verbatim>\<open>x.split(sep)\<close> for a separator of one character: the pieces between the occurrences.\<close>

fun split_from :: "char \<Rightarrow> string \<Rightarrow> string \<Rightarrow> string list" where
  "split_from sep piece [] = [piece]"
| "split_from sep piece (x # xs) =
     (if x = sep then piece # split_from sep [] xs else split_from sep (piece @ [x]) xs)"

definition str_split :: "string \<Rightarrow> char \<Rightarrow> string list" where
  "str_split x sep = split_from sep [] x"

text \<open>\<^verbatim>\<open>"".join(parts)\<close>\<close>

definition str_join :: "string list \<Rightarrow> string" where
  "str_join parts = concat parts"

section \<open>Double-precision numbers\<close>

text \<open>
  A Python \<open>float\<close> (and a numpy \<open>float64\<close>) is an IEEE 754 binary64 number: a finite value
  is the rational it denotes, and the arithmetic rounds the exact result to the nearest
  representable value, ties to the even significand. The sign of a zero is not
  represented.
\<close>

datatype float64 = Finite rat | PInf | NInf | NaN

fun bit_length :: "nat \<Rightarrow> nat" where
  "bit_length n = (if n = 0 then 0 else Suc (bit_length (n div 2)))"

declare bit_length.simps [simp del]

text \<open>The integer \<open>k\<close> with \<open>2 ^ k \<le> a < 2 ^ (k + 1)\<close>, for \<open>a > 0\<close>.\<close>

definition floor_log2 :: "rat \<Rightarrow> int" where
  "floor_log2 a =
     (if 1 \<le> a then int (bit_length (nat \<lfloor>a\<rfloor>)) - 1
      else - int (bit_length (nat (\<lceil>1 / a\<rceil> - 1))))"

definition pow2 :: "int \<Rightarrow> rat" where
  "pow2 e = (if 0 \<le> e then 2 ^ nat e else 1 / 2 ^ nat (- e))"

definition round_half_even :: "rat \<Rightarrow> int" where
  "round_half_even q =
     (let f = \<lfloor>q\<rfloor>; d = q - of_int f
      in if d < 1 / 2 then f
         else if 1 / 2 < d then f + 1
         else if even f then f else f + 1)"

text \<open>
  Rounding an exact result to binary64: 53 significant bits, the least exponent of the
  last place is \<open>-1074\<close> (subnormal numbers), and a rounded magnitude of \<open>2 ^ 1024\<close> or more
  overflows to an infinity.
\<close>

definition fl :: "rat \<Rightarrow> float64" where
  "fl q =
     (if q = 0 then Finite 0
      else let a = \<bar>q\<bar>;
               e = max (floor_log2 a - 52) (- 1074);
               m = round_half_even (a / pow2 e);
               r = of_int m * pow2 e
           in if 2 ^ 1024 \<le> r then (if 0 < q then PInf else NInf)
              else Finite (if 0 < q then r else - r))"

text \<open>Product and quotient of a double with a positive finite constant \<open>c\<close>.\<close>

definition float_mul :: "float64 \<Rightarrow> rat \<Rightarrow> float64" where
  "float_mul x c =
     (case x of Finite q \<Rightarrow> fl (q * c) | PInf \<Rightarrow> PInf | NInf \<Rightarrow> NInf | NaN \<Rightarrow> NaN)"

definition float_div :: "float64 \<Rightarrow> rat \<Rightarrow> float64" where
  "float_div x c =
     (case x of Finite q \<Rightarrow> fl (q / c) | PInf \<Rightarrow> PInf | NInf \<Rightarrow> NInf | NaN \<Rightarrow> NaN)"

text \<open>\<^verbatim>\<open>np.rint\<close>: the nearest integer, ties to even.\<close>

definition rint :: "float64 \<Rightarrow> float64" where
  "rint x =
     (case x of Finite q \<Rightarrow> Finite (of_int (round_half_even q))
      | PInf \<Rightarrow> PInf | NInf \<Rightarrow> NInf | NaN \<Rightarrow> NaN)"

text \<open>
  \<^verbatim>\<open>np.round(x, decimals)\<close> for \<open>decimals \<ge> 0\<close>: numpy scales by the power of ten, rounds
  to an integer and scales back, \<^verbatim>\<open>rint(x * 10**decimals) / 10**decimals\<close>, each step in
  double precision.
\<close>

definition np_round :: "float64 \<Rightarrow> nat \<Rightarrow> float64" where
  "np_round x decimals = float_div (rint (float_mul x (10 ^ decimals))) (10 ^ decimals)"

text \<open>
  The built-in \<^verbatim>\<open>float(s)\<close> is a parameter of \<open>transform\<close>: a function that gives the
  number read, or \<open>None\<close> where Python raises \<open>ValueError\<close>. \<open>float_of_digits\<close> is the
  instance used for concrete runs. It reads a non-empty run of ASCII digits, which
  \<^verbatim>\<open>float\<close> reads as the double nearest to that integer, and answers \<open>None\<close> for every
  other string. Python accepts more spellings (a sign, a fraction, an exponent, blanks
  around the number); \<open>float_of_digits\<close> is applied to no such string below.
\<close>

type_synonym float_parser = "string \<Rightarrow> float64 option"

definition digit_val :: "char \<Rightarrow> nat option" where
  "digit_val c =
     (let n = (of_char c :: nat) in if 48 \<le> n \<and> n \<le> 57 then Some (n - 48) else None)"

fun digits_val :: "nat \<Rightarrow> string \<Rightarrow> nat option" where
  "digits_val acc [] = Some acc"
| "digits_val acc (c # cs) =
     (case digit_val c of None \<Rightarrow> None | Some d \<Rightarrow> digits_val (10 * acc + d) cs)"

definition float_of_digits :: float_parser where
  "float_of_digits s =
     (if s = [] then None
      else case digits_val 0 s of None \<Rightarrow> None | Some n \<Rightarrow> Some (fl (of_nat n)))"

section \<open>Data frames\<close>

text \<open>
  A pandas \<open>DataFrame\<close> is its columns in order, each a name and the list of its cells.
  A cell holds a string or a number.
\<close>

datatype cell = Str string | Num float64

type_synonym frame = "(string \<times> cell list) list"

text \<open>\<^verbatim>\<open>pd.DataFrame(columns=table_attribs)\<close>\<close>

definition DataFrame_columns :: "string list \<Rightarrow> frame" where
  "DataFrame_columns names = map (\<lambda>n. (n, [])) names"

definition nrows :: "frame \<Rightarrow> nat" where
  "nrows df = (case df of [] \<Rightarrow> 0 | (n, c) # _ \<Rightarrow> length c)"

definition column_or_nan :: "frame \<Rightarrow> string \<Rightarrow> cell list" where
  "column_or_nan df n =
     (case map_of df n of Some c \<Rightarrow> c | None \<Rightarrow> replicate (nrows df) (Num NaN))"

text \<open>
  \<^verbatim>\<open>pd.concat([df, df1], ignore_index=True)\<close>: the columns of \<open>df\<close>, then the columns that
  only \<open>df1\<close> has; the rows of \<open>df\<close>, then the rows of \<open>df1\<close>; a cell that a frame does not
  have is NaN.
\<close>

definition pd_concat :: "frame \<Rightarrow> frame \<Rightarrow> error + frame" where
  "pd_concat df df1 =
     (if \<not> distinct (map fst df) \<or> \<not> distinct (map fst df1) then Inl OutsideModel
      else Inr (map (\<lambda>n. (n, column_or_nan df n @ column_or_nan df1 n))
                  (map fst df @ filter (\<lambda>n. n \<notin> set (map fst df)) (map fst df1))))"

text \<open>\<^verbatim>\<open>df[name]\<close> for reading a column.\<close>

definition getitem :: "frame \<Rightarrow> string \<Rightarrow> error + cell list" where
  "getitem df name =
     (case filter (\<lambda>p. fst p = name) df of
        [] \<Rightarrow> Inl KeyError
      | [p] \<Rightarrow> Inr (snd p)
      | _ \<Rightarrow> Inl OutsideModel)"

text \<open>\<^verbatim>\<open>df[name] = values\<close>: the column is replaced where it stands, or added at the end.\<close>

definition setitem :: "frame \<Rightarrow> string \<Rightarrow> cell list \<Rightarrow> frame" where
  "setitem df name vals =
     (if name \<in> set (map fst df)
      then map (\<lambda>p. if fst p = name then (name, vals) else p) df
      else df @ [(name, vals)])"

text \<open>\<^verbatim>\<open>df.rename(columns={old: new})\<close>, which builds a new frame.\<close>

definition rename :: "frame \<Rightarrow> string \<Rightarrow> string \<Rightarrow> frame" where
  "rename df old new = map (\<lambda>p. (if fst p = old then new else fst p, snd p)) df"

section \<open>Parsed HTML\<close>

text \<open>
  What BeautifulSoup builds: a text node (\<open>NavigableString\<close>), or an element (\<open>Tag\<close>) with
  its name and its children, the list \<^verbatim>\<open>.contents\<close>. Attributes are not read by the script.
\<close>

datatype node = Text string | Tag string "node list"

fun contents :: "node \<Rightarrow> node list" where
  "contents (Tag name cs) = cs"
| "contents (Text s) = []"

text \<open>The descendants of a node in document order.\<close>

fun descendants :: "node \<Rightarrow> node list" and descendants_list :: "node list \<Rightarrow> node list" where
  "descendants (Text s) = []"
| "descendants (Tag name cs) = descendants_list cs"
| "descendants_list [] = []"
| "descendants_list (c # cs) = c # descendants c @ descendants_list cs"

fun is_tag :: "string \<Rightarrow> node \<Rightarrow> bool" where
  "is_tag name (Tag n cs) = (n = name)"
| "is_tag name (Text s) = False"

text \<open>\<^verbatim>\<open>t.find_all(name)\<close> and \<^verbatim>\<open>t.find(name)\<close> (also written \<^verbatim>\<open>t.name\<close>, as in \<^verbatim>\<open>col[0].a\<close>).\<close>

definition find_all :: "string \<Rightarrow> node \<Rightarrow> node list" where
  "find_all name t = filter (is_tag name) (descendants t)"

definition find :: "string \<Rightarrow> node \<Rightarrow> node option" where
  "find name t = (case find_all name t of [] \<Rightarrow> None | x # _ \<Rightarrow> Some x)"

text \<open>
  \<^verbatim>\<open>s in t\<close> for a string \<open>s\<close> and an element \<open>t\<close>: \<open>Tag.__contains__\<close> is
  \<^verbatim>\<open>s in t.contents\<close>, membership in the list of children. A child that is a text node
  equals \<open>s\<close> when it is the same string; a child that is an element never equals a string.
\<close>

definition tag_contains :: "string \<Rightarrow> node \<Rightarrow> bool" where
  "tag_contains s t = (Text s \<in> set (contents t))"

section \<open>extract\<close>

text \<open>Lines 30 to 36: the cells of one row and the dictionary built from them.\<close>

definition row_dict :: "node \<Rightarrow> error + (node \<times> node) option" where
  "row_dict row =
     (let col = find_all ''td'' row in
      if length col \<noteq> 0 then
        (case find ''a'' (col ! 0) of
           None \<Rightarrow> Inr None
         | Some a \<Rightarrow>
             if length col < 3 then Inl IndexError
             else if \<not> tag_contains em_dash (col ! 2) then
               (case contents a of
                  [] \<Rightarrow> Inl IndexError
                | country # _ \<Rightarrow>
                    (case contents (col ! 2) of
                       [] \<Rightarrow> Inl IndexError
                     | gdp # _ \<Rightarrow> Inr (Some (country, gdp))))
             else Inr None)
      else Inr None)"

text \<open>
  Line 37, \<^verbatim>\<open>pd.DataFrame(data_dict, index=[0])\<close>: a frame of one row. A value that is a
  text node is a string for pandas, and fills the row. A value that is an element is a
  list for pandas, the list of its children: an element whose only child is a text gives
  that text, and an element with no child or with several texts as children does not
  have the length of the index, which raises \<open>ValueError\<close>. What pandas does with an
  element that has an element among its children is not described here.
\<close>

fun is_text :: "node \<Rightarrow> bool" where
  "is_text (Text s) = True"
| "is_text (Tag name cs) = False"

definition pandas_value :: "node \<Rightarrow> error + cell" where
  "pandas_value v =
     (case v of
        Text s \<Rightarrow> Inr (Str s)
      | Tag name children \<Rightarrow>
          if list_all is_text children
          then (case children of [Text s] \<Rightarrow> Inr (Str s) | _ \<Rightarrow> Inl ValueError)
          else Inl OutsideModel)"

definition DataFrame_dict :: "node \<times> node \<Rightarrow> error + frame" where
  "DataFrame_dict d =
     (case d of
        (country, gdp) \<Rightarrow>
          if pandas_value country = Inl OutsideModel \<or> pandas_value gdp = Inl OutsideModel
          then Inl OutsideModel
          else (case (pandas_value country, pandas_value gdp) of
                  (Inr c, Inr g) \<Rightarrow> Inr [(''Country'', [c]), (''GDP_USD_millions'', [g])]
                | _ \<Rightarrow> Inl ValueError))"

text \<open>Lines 29 to 38: the loop over the rows, with the frame built so far.\<close>

fun extract_rows :: "node list \<Rightarrow> frame \<Rightarrow> error + frame" where
  "extract_rows [] df = Inr df"
| "extract_rows (row # rows) df =
     (case row_dict row of
        Inl e \<Rightarrow> Inl e
      | Inr None \<Rightarrow> extract_rows rows df
      | Inr (Some d) \<Rightarrow>
          (case DataFrame_dict d of
             Inl e \<Rightarrow> Inl e
           | Inr df1 \<Rightarrow>
               (case pd_concat df df1 of
                  Inl e \<Rightarrow> Inl e
                | Inr df' \<Rightarrow> extract_rows rows df')))"

text \<open>Lines 21 to 39, from the parsed document on.\<close>

definition extract_page :: "node \<Rightarrow> string list \<Rightarrow> error + frame" where
  "extract_page data table_attribs =
     (let df = DataFrame_columns table_attribs;
          tables = find_all ''tbody'' data
      in if length tables < 3 then Inl IndexError
         else extract_rows (find_all ''tr'' (tables ! 2)) df)"

text \<open>
  The outside world of the script: the GET requests issued so far, the lines of the log
  file, the CSV files and the database tables.
\<close>

record response =
  status_code :: int
  resp_text :: string

record world =
  requests_sent :: "string list"
  log_file :: "string list"
  csv_files :: "string \<rightharpoonup> frame"
  db_tables :: "string \<rightharpoonup> frame"

text \<open>
  The network is a parameter: the answer to a GET of a URL, given how many requests were
  issued before it. \<^verbatim>\<open>requests.get\<close> raises where no response arrives.
\<close>

type_synonym server = "string \<Rightarrow> nat \<Rightarrow> response option"

definition requests_get :: "server \<Rightarrow> string \<Rightarrow> world \<Rightarrow> (error + response) \<times> world" where
  "requests_get srv u w =
     ((case srv u (length (requests_sent w)) of
         None \<Rightarrow> Inl ConnectionError
       | Some r \<Rightarrow> Inr r),
      w\<lparr>requests_sent := requests_sent w @ [u]\<rparr>)"

text \<open>
  \<open>extract\<close>, lines 14 to 39 (\<open>extract\<close> is a command of Isabelle, hence the suffix).
  The HTML parser, \<^verbatim>\<open>BeautifulSoup(page, 'html.parser')\<close>, is a parameter that gives the
  root of the parsed document.
\<close>

definition extract_py ::
  "server \<Rightarrow> (string \<Rightarrow> node) \<Rightarrow> string \<Rightarrow> string list \<Rightarrow> world \<Rightarrow> (error + frame) \<times> world" where
  "extract_py srv html_parser u table_attribs w =
     (case requests_get srv u w of
        (Inl e, w') \<Rightarrow> (Inl e, w')
      | (Inr response, w') \<Rightarrow>
          if status_code response \<noteq> 200 then (Inl (LoadFailed (status_code response)), w')
          else (extract_page (html_parser (resp_text response)) table_attribs, w'))"

section \<open>transform\<close>

text \<open>Line 44, one element: \<^verbatim>\<open>float("".join(x.split(',')))\<close>. A number has no \<open>split\<close>.\<close>

definition to_float :: "float_parser \<Rightarrow> cell \<Rightarrow> error + float64" where
  "to_float float x =
     (case x of
        Num v \<Rightarrow> Inl AttributeError
      | Str s \<Rightarrow>
          (case float (str_join (str_split s CHR '','')) of
             None \<Rightarrow> Inl ValueError
           | Some v \<Rightarrow> Inr v))"

text \<open>A list comprehension whose element expression may raise: the first exception ends it.\<close>

fun comprehension :: "('a \<Rightarrow> error + 'b) \<Rightarrow> 'a list \<Rightarrow> error + 'b list" where
  "comprehension f [] = Inr []"
| "comprehension f (x # xs) =
     (case f x of
        Inl e \<Rightarrow> Inl e
      | Inr y \<Rightarrow> (case comprehension f xs of Inl e \<Rightarrow> Inl e | Inr ys \<Rightarrow> Inr (y # ys)))"

text \<open>
  \<open>transform\<close>, lines 41 to 49. The frame is passed by reference and lines 46 and 47
  assign into it, so the result has two parts: the frame that the caller's object holds
  after the call, and the new frame that \<open>rename\<close> builds and \<open>transform\<close> returns. Both
  exceptions are raised before line 46, where the caller's frame is still as it was.
  Line 47 converts a column that already holds doubles and leaves it as it is.
\<close>

definition transform :: "float_parser \<Rightarrow> frame \<Rightarrow> error + frame \<times> frame" where
  "transform float df =
     (case getitem df ''GDP_USD_millions'' of
        Inl e \<Rightarrow> Inl e
      | Inr column \<Rightarrow>
          (case comprehension (to_float float) column of
             Inl e \<Rightarrow> Inl e
           | Inr GDP_list \<Rightarrow>
               let GDP_list' = map (\<lambda>x. np_round (float_div x 1000) 2) GDP_list;
                   df' = setitem df ''GDP_USD_millions'' (map Num GDP_list')
               in Inr (df', rename df' ''GDP_USD_millions'' ''GDP_USD_billions'')))"

section \<open>Loading, querying, logging\<close>

text \<open>
  \<open>to_csv\<close> and \<open>to_sql\<close> with \<^verbatim>\<open>if_exists='replace'\<close> put the frame under the path and
  under the table name; how the frame is written out is not described here.
\<close>

definition load_to_csv :: "frame \<Rightarrow> string \<Rightarrow> world \<Rightarrow> world" where
  "load_to_csv df csv_path w = w\<lparr>csv_files := (csv_files w)(csv_path \<mapsto> df)\<rparr>"

definition load_to_db :: "frame \<Rightarrow> string \<Rightarrow> world \<Rightarrow> world" where
  "load_to_db df table_name w = w\<lparr>db_tables := (db_tables w)(table_name \<mapsto> df)\<rparr>"

text \<open>
  \<open>run_query\<close>, lines 59 to 61. \<^verbatim>\<open>pd.read_sql\<close> is a parameter. The body binds its result
  to a local name and ends, so the call returns Python's \<open>None\<close>.
\<close>

type_synonym sql_reader = "string \<Rightarrow> (string \<rightharpoonup> frame) \<Rightarrow> error + frame"

definition run_query :: "sql_reader \<Rightarrow> string \<Rightarrow> (string \<rightharpoonup> frame) \<Rightarrow> error + frame option" where
  "run_query read_sql query_statement sql_connection =
     (case read_sql query_statement sql_connection of
        Inl e \<Rightarrow> Inl e
      | Inr query_output \<Rightarrow> Inr None)"

text \<open>
  \<open>log_progress\<close>, lines 63 to 69. The clock is a parameter: the formatted time of the
  entry, given how many lines the log already has.
\<close>

definition log_progress :: "(nat \<Rightarrow> string) \<Rightarrow> string \<Rightarrow> world \<Rightarrow> world" where
  "log_progress timestamp message w =
     w\<lparr>log_file := log_file w @ [timestamp (length (log_file w)) @ '' : '' @ message @ [CHR 0x0A]]\<rparr>"

section \<open>The script\<close>

definition url :: string where
  "url = ''https://web.archive.org/web/20230902185326/https://en.wikipedia.org/wiki/List_of_countries_by_GDP_%28nominal%29''"

definition table_attribs :: "string list" where
  "table_attribs = [''Country'', ''GDP_USD_millions'']"

definition table_name :: string where
  "table_name = ''Countries_by_GDP''"

definition csv_path :: string where
  "csv_path = ''./Countries_by_GDP.csv''"

definition query_statement :: string where
  "query_statement = ''SELECT * FROM '' @ table_name @ '' WHERE GDP_USD_billions >= 100''"

text \<open>
  Lines 79 to 101. No statement is inside a \<open>try\<close>: the first exception ends the run, and
  the result is that exception, or \<open>None\<close> after a complete run, with the world as the run
  left it.
\<close>

definition main ::
  "server \<Rightarrow> (string \<Rightarrow> node) \<Rightarrow> float_parser \<Rightarrow> sql_reader \<Rightarrow> (nat \<Rightarrow> string) \<Rightarrow> world
     \<Rightarrow> error option \<times> world" where
  "main srv html_parser float read_sql timestamp w0 =
     (let w1 = log_progress timestamp ''Preliminaries complete. Initiating ETL process'' w0 in
      case extract_py srv html_parser url table_attribs w1 of
        (Inl e, w2) \<Rightarrow> (Some e, w2)
      | (Inr df, w2) \<Rightarrow>
          let w3 = log_progress timestamp
                     ''Data extraction complete. Initiating Transformation process'' w2 in
          (case transform float df of
             Inl e \<Rightarrow> (Some e, w3)
           | Inr (df_arg, df') \<Rightarrow>
               let w4 = log_progress timestamp
                          ''Data transformation complete. Initiating loading process'' w3;
                   w5 = load_to_csv df' csv_path w4;
                   w6 = log_progress timestamp ''Data saved to CSV file'' w5;
                   w7 = log_progress timestamp ''SQL Connection initiated.'' w6;
                   w8 = load_to_db df' table_name w7;
                   w9 = log_progress timestamp
                          ''Data loaded to Database as table. Running the query'' w8
               in (case run_query read_sql query_statement (db_tables w9) of
                     Inl e \<Rightarrow> (Some e, w9)
                   | Inr r \<Rightarrow> (None, log_progress timestamp ''Process Complete.'' w9))))"

section \<open>Records\<close>

text \<open>
  The frame that holds one record per row, a country and its raw GDP string, under the
  column names of \<open>table_attribs\<close>.
\<close>

definition records_frame :: "(string \<times> string) list \<Rightarrow> frame" where
  "records_frame rs =
     [(''Country'', map (\<lambda>r. Str (fst r)) rs), (''GDP_USD_millions'', map (\<lambda>r. Str (snd r)) rs)]"

text \<open>
  The specification's account of the extractor, to be compared with \<open>extract_rows\<close>: which
  rows yield a record (\<open>emits\<close>), and the record (\<open>record_of\<close>): the text that the first
  hyperlink of the first cell starts with, and the text that the third cell starts with.
  A row is \<open>well_formed\<close> when the loop body can process it: a row with cells and a
  hyperlink in the first cell has three cells, and unless the third cell has the marker
  among its children, the hyperlink and the third cell both start with a text node.
\<close>

definition starts_with_text :: "node \<Rightarrow> bool" where
  "starts_with_text t = (case contents t of Text s # _ \<Rightarrow> True | _ \<Rightarrow> False)"

definition well_formed :: "node \<Rightarrow> bool" where
  "well_formed row =
     (case find_all ''td'' row of
        [] \<Rightarrow> True
      | c0 # cs \<Rightarrow>
          (case find ''a'' c0 of
             None \<Rightarrow> True
           | Some a \<Rightarrow>
               (case cs of
                  c1 # c2 # _ \<Rightarrow>
                    tag_contains em_dash c2 \<or> (starts_with_text a \<and> starts_with_text c2)
                | _ \<Rightarrow> False)))"

definition emits :: "node \<Rightarrow> bool" where
  "emits row =
     (case find_all ''td'' row of
        c0 # c1 # c2 # _ \<Rightarrow> find ''a'' c0 \<noteq> None \<and> \<not> tag_contains em_dash c2
      | _ \<Rightarrow> False)"

definition first_text :: "node \<Rightarrow> string" where
  "first_text t = (case contents t of Text s # _ \<Rightarrow> s | _ \<Rightarrow> [])"

definition record_of :: "node \<Rightarrow> string \<times> string" where
  "record_of row =
     (case find_all ''td'' row of
        c0 # c1 # c2 # _ \<Rightarrow>
          (case find ''a'' c0 of Some a \<Rightarrow> (first_text a, first_text c2) | None \<Rightarrow> ([], []))
      | _ \<Rightarrow> ([], []))"



section \<open>Sample inputs\<close>

text \<open>Rows as the source page has them, and rows that differ from them in one respect.\<close>

definition header_row :: node where
  "header_row = Tag ''tr'' [Tag ''th'' [Text ''Country''], Tag ''th'' [Text ''Region''],
                           Tag ''th'' [Text ''IMF'']]"

definition xland_row :: node where
  "xland_row = Tag ''tr'' [Tag ''td'' [Tag ''a'' [Text ''Xland'']], Tag ''td'' [Text ''Asia''],
                          Tag ''td'' [Text ''12,345'']]"

definition world_row :: node where
  "world_row = Tag ''tr'' [Tag ''td'' [Text ''World''], Tag ''td'' [Text em_dash],
                          Tag ''td'' [Text ''105,568,776'']]"

definition dash_row :: node where
  "dash_row = Tag ''tr'' [Tag ''td'' [Tag ''a'' [Text ''Zland'']], Tag ''td'' [Text ''Asia''],
                         Tag ''td'' [Text em_dash]]"

definition dash_note_row :: node where
  "dash_note_row = Tag ''tr'' [Tag ''td'' [Tag ''a'' [Text ''Wland'']], Tag ''td'' [Text ''Asia''],
                              Tag ''td'' [Text (em_dash @ '' (est.)'')]]"

definition footnote_row :: node where
  "footnote_row = Tag ''tr'' [Tag ''td'' [Tag ''a'' [Text ''Vland'']], Tag ''td'' [Text ''Asia''],
                             Tag ''td'' [Text ''7,000'', Tag ''sup'' [Text ''[n 1]'']]]"

definition short_row :: node where
  "short_row = Tag ''tr'' [Tag ''td'' [Tag ''a'' [Text ''Yland'']], Tag ''td'' [Text ''Asia'']]"

definition bad_number_row :: node where
  "bad_number_row = Tag ''tr'' [Tag ''td'' [Tag ''a'' [Text ''Uland'']], Tag ''td'' [Text ''Asia''],
                               Tag ''td'' [Text ''n/a'']]"

text \<open>A document with three tables, the rows in the third; and one with two tables.\<close>

definition page_of :: "node list \<Rightarrow> node" where
  "page_of rows =
     Tag ''[document]''
       [Tag ''table'' [Tag ''tbody'' []], Tag ''table'' [Tag ''tbody'' []],
        Tag ''table'' [Tag ''tbody'' rows]]"

definition two_tables_page :: node where
  "two_tables_page = Tag ''[document]'' [Tag ''table'' [Tag ''tbody'' [xland_row]],
                                         Tag ''table'' [Tag ''tbody'' [xland_row]]]"

text \<open>
  A server that answers every request with one status and body, a parser that yields one
  document, a clock that stands still, a database reader that finds no rows, and the
  world before the first run.
\<close>

definition answering :: "int \<Rightarrow> string \<Rightarrow> server" where
  "answering status page = (\<lambda>u n. Some \<lparr>status_code = status, resp_text = page\<rparr>)"

definition parsed_as :: "node \<Rightarrow> string \<Rightarrow> node" where
  "parsed_as data = (\<lambda>page. data)"

definition still_clock :: "nat \<Rightarrow> string" where
  "still_clock = (\<lambda>n. ''2023-Sep-02-18:53:26'')"

definition no_rows :: sql_reader where
  "no_rows = (\<lambda>statement connection. Inr [])"

definition empty_world :: world where
  "empty_world = \<lparr>requests_sent = [], log_file = [], csv_files = Map.empty, db_tables = Map.empty\<rparr>"

section \<open>Auxiliary facts\<close>

subsection \<open>Strings and list comprehensions\<close>

lemma split_from_concat: "concat (split_from sep piece s) = piece @ filter (\<lambda>c. c \<noteq> sep) s"
  by (induction s arbitrary: piece) simp_all

lemma strip_commas: "str_join (str_split s sep) = filter (\<lambda>c. c \<noteq> sep) s"
  by (simp add: str_join_def str_split_def split_from_concat)

lemma to_float_Str:
  "to_float float (Str s) =
     (case float (filter (\<lambda>c. c \<noteq> CHR '','') s) of None \<Rightarrow> Inl ValueError | Some v \<Rightarrow> Inr v)"
  by (simp add: to_float_def strip_commas)

lemma comprehension_to_float:
  "map (\<lambda>g. float (filter (\<lambda>c. c \<noteq> CHR '','') g)) gs = map Some xs \<Longrightarrow>
     comprehension (to_float float) (map Str gs) = Inr xs"
proof (induction gs arbitrary: xs)
  case Nil
  then show ?case by simp
next
  case (Cons g gs)
  then obtain x xs' where xs: "xs = x # xs'" by (cases xs) auto
  with Cons.prems have hd: "float (filter (\<lambda>c. c \<noteq> CHR '','') g) = Some x"
    and tl: "map (\<lambda>g. float (filter (\<lambda>c. c \<noteq> CHR '','') g)) gs = map Some xs'"
    by simp_all
  from Cons.IH [OF tl] hd xs show ?case by (simp add: to_float_Str)
qed

lemma comprehension_fails:
  assumes "x \<in> set xs" "f x = Inl e" "\<And>y. y \<in> set xs \<Longrightarrow> f y = Inl e \<or> (\<exists>v. f y = Inr v)"
  shows "comprehension f xs = Inl e"
  using assms
proof (induction xs)
  case Nil
  then show ?case by simp
next
  case (Cons y ys)
  from Cons.prems(3) [of y] consider "f y = Inl e" | v where "f y = Inr v" by auto
  then show ?case
  proof cases
    case 1
    then show ?thesis by simp
  next
    case 2
    with Cons.prems(1,2) have "x \<in> set ys" by auto
    then have "comprehension f ys = Inl e"
      using Cons.prems(2,3) by (intro Cons.IH) simp_all
    with 2 show ?thesis by simp
  qed
qed

subsection \<open>Rows\<close>

lemma extract_rows_append:
  "extract_rows (xs @ ys) df =
     (case extract_rows xs df of Inl e \<Rightarrow> Inl e | Inr df' \<Rightarrow> extract_rows ys df')"
  by (induction xs arbitrary: df) (simp_all split: sum.splits option.splits)

lemma row_dict_no_cells:
  "find_all ''td'' row = [] \<Longrightarrow> row_dict row = Inr None"
  by (simp add: row_dict_def)

lemma row_dict_no_link:
  "find_all ''td'' row = c0 # cs \<Longrightarrow> find ''a'' c0 = None \<Longrightarrow> row_dict row = Inr None"
  by (simp add: row_dict_def)

lemma row_dict_few_cells:
  "find_all ''td'' row = c0 # cs \<Longrightarrow> find ''a'' c0 = Some a \<Longrightarrow> length cs < 2 \<Longrightarrow>
     row_dict row = Inl IndexError"
  by (simp add: row_dict_def)

lemma row_dict_three_cells:
  "find_all ''td'' row = c0 # c1 # c2 # cs \<Longrightarrow> find ''a'' c0 = Some a \<Longrightarrow>
     row_dict row =
       (if tag_contains em_dash c2 then Inr None
        else case contents a of
               [] \<Rightarrow> Inl IndexError
             | country # _ \<Rightarrow>
                 (case contents c2 of
                    [] \<Rightarrow> Inl IndexError
                  | gdp # _ \<Rightarrow> Inr (Some (country, gdp))))"
  by (simp add: row_dict_def cong: list.case_cong)

lemma starts_with_textE:
  assumes "starts_with_text t"
  obtains s rest where "contents t = Text s # rest"
  using assms by (auto simp: starts_with_text_def split: list.splits node.splits)

lemma row_dict_well_formed:
  assumes wf: "well_formed row"
  shows "row_dict row =
       (if emits row then Inr (Some (Text (fst (record_of row)), Text (snd (record_of row))))
        else Inr None)"
proof (cases "find_all ''td'' row")
  case Nil
  then show ?thesis by (simp add: row_dict_no_cells emits_def)
next
  case (Cons c0 cs)
  show ?thesis
  proof (cases "find ''a'' c0")
    case None
    then show ?thesis
      using Cons by (simp add: row_dict_no_link emits_def split: list.splits)
  next
    case (Some a)
    from wf Cons Some obtain c1 c2 rest where cs: "cs = c1 # c2 # rest"
      and ok: "tag_contains em_dash c2 \<or> (starts_with_text a \<and> starts_with_text c2)"
      by (auto simp: well_formed_def split: list.splits)
    have cells: "find_all ''td'' row = c0 # c1 # c2 # rest"
      using Cons cs by simp
    show ?thesis
    proof (cases "tag_contains em_dash c2")
      case True
      then show ?thesis
        using cells Some by (simp add: row_dict_three_cells emits_def)
    next
      case False
      with ok have "starts_with_text a" and "starts_with_text c2" by simp_all
      then obtain s ra g rg where "contents a = Text s # ra" and "contents c2 = Text g # rg"
        by (elim starts_with_textE)
      then show ?thesis
        using cells Some False
        by (simp add: row_dict_three_cells emits_def record_of_def first_text_def)
    qed
  qed
qed

lemma pd_concat_record:
  "pd_concat (records_frame acc) [(''Country'', [Str c]), (''GDP_USD_millions'', [Str g])]
     = Inr (records_frame (acc @ [(c, g)]))"
  by (simp add: pd_concat_def records_frame_def column_or_nan_def)

lemma extract_rows_well_formed:
  "list_all well_formed rows \<Longrightarrow>
     extract_rows rows (records_frame acc)
       = Inr (records_frame (acc @ map record_of (filter emits rows)))"
proof (induction rows arbitrary: acc)
  case Nil
  then show ?case by simp
next
  case (Cons row rows)
  then have wf: "well_formed row" and rest: "list_all well_formed rows" by simp_all
  show ?case
  proof (cases "emits row")
    case True
    then show ?thesis
      using Cons.IH [OF rest, of "acc @ [record_of row]"]
      by (simp add: row_dict_well_formed [OF wf] DataFrame_dict_def pandas_value_def
            pd_concat_record)
  next
    case False
    then show ?thesis
      using Cons.IH [OF rest, of acc] by (simp add: row_dict_well_formed [OF wf])
  qed
qed

lemma empty_records_frame: "DataFrame_columns table_attribs = records_frame []"
  by (simp add: DataFrame_columns_def table_attribs_def records_frame_def)

lemma filter_count: "length (filter P xs) = length xs - length (filter (\<lambda>x. \<not> P x) xs)"
  using sum_length_filter_compl [of P xs] by simp

subsection \<open>Frames\<close>

lemma getitem_records_frame:
  "getitem (records_frame rs) ''GDP_USD_millions'' = Inr (map (\<lambda>r. Str (snd r)) rs)"
  by (simp add: getitem_def records_frame_def)

lemma getitem_Inr_name: "getitem df name = Inr c \<Longrightarrow> name \<in> set (map fst df)"
proof -
  assume g: "getitem df name = Inr c"
  then obtain p where "filter (\<lambda>p. fst p = name) df = [p]"
    by (auto simp: getitem_def split: list.splits)
  then have "p \<in> set (filter (\<lambda>p. fst p = name) df)" by simp
  then show ?thesis by auto
qed

lemma names_setitem: "name \<in> set (map fst df) \<Longrightarrow> map fst (setitem df name vals) = map fst df"
  by (induction df) (auto simp: setitem_def)

lemma map_of_replace:
  "map_of (map (\<lambda>p. if fst p = name then (name, vals) else p) df) n =
     (if n = name then map_option (\<lambda>c. vals) (map_of df name) else map_of df n)"
  by (induction df) auto

lemma map_of_setitem:
  assumes "name \<in> set (map fst df)"
  shows "map_of (setitem df name vals) n = (if n = name then Some vals else map_of df n)"
proof -
  from assms obtain c where "map_of df name = Some c"
    by (cases "map_of df name") (simp_all add: map_of_eq_None_iff)
  with assms show ?thesis by (simp add: setitem_def map_of_replace)
qed

lemma transform_ValueError:
  assumes "getitem df ''GDP_USD_millions'' = Inr (map Str gs)" "g \<in> set gs"
    "float (filter (\<lambda>c. c \<noteq> CHR '','') g) = None"
  shows "transform float df = Inl ValueError"
proof -
  have "comprehension (to_float float) (map Str gs) = Inl ValueError"
  proof (rule comprehension_fails)
    show "Str g \<in> set (map Str gs)" using assms(2) by simp
    show "to_float float (Str g) = Inl ValueError" using assms(3) by (simp add: to_float_Str)
    show "to_float float y = Inl ValueError \<or> (\<exists>v. to_float float y = Inr v)"
      if "y \<in> set (map Str gs)" for y
      using that by (auto simp: to_float_Str split: option.splits)
  qed
  with assms(1) show ?thesis by (simp add: transform_def)
qed

subsection \<open>Evaluating double-precision arithmetic\<close>

lemma floor_numeral_fraction:
  "\<lfloor>numeral a / numeral b :: rat\<rfloor> = numeral a div numeral b"
  using floor_divide_of_int_eq [of "numeral a" "numeral b", where ?'a = rat] by simp

lemma ceiling_numeral_fraction:
  "\<lceil>numeral a / numeral b :: rat\<rceil> = - (- numeral a div numeral b)"
  using floor_divide_of_int_eq [of "- numeral a" "numeral b", where ?'a = rat]
  by (simp add: ceiling_def)

lemmas log2_eval = floor_log2_def bit_length.simps floor_numeral_fraction ceiling_numeral_fraction
lemmas round_eval = round_half_even_def pow2_def Let_def floor_numeral_fraction

lemma fl_positive:
  assumes "0 < q" and "floor_log2 q = k" and "max (k - 52) (- 1074) = e"
    and "round_half_even (q / pow2 e) = m" and "of_int m * pow2 e = r" and "r < 2 ^ 1024"
  shows "fl q = Finite r"
  using assms by (simp add: fl_def Let_def)

lemma fl_12345: "fl 12345 = Finite 12345"
proof (rule fl_positive)
  show "(0::rat) < 12345" by simp
  show "floor_log2 12345 = 13" by (simp add: log2_eval)
  show "max (13 - 52) (- 1074) = (- 39 :: int)" by simp
  show "round_half_even (12345 / pow2 (- 39)) = 6786735522447360"
    by (simp add: round_eval)
  show "of_int 6786735522447360 * pow2 (- 39) = (12345 :: rat)" by (simp add: pow2_def)
  show "(12345 :: rat) < 2 ^ 1024" by simp
qed

lemma fl_12_345: "fl (12345 / 1000) = Finite (6949617174986097 / 562949953421312)"
proof (rule fl_positive)
  show "(0::rat) < 12345 / 1000" by simp
  show "floor_log2 (12345 / 1000) = 3" by (simp add: log2_eval)
  show "max (3 - 52) (- 1074) = (- 49 :: int)" by simp
  show "round_half_even (12345 / 1000 / pow2 (- 49)) = 6949617174986097"
    by (simp add: round_eval)
  show "of_int 6949617174986097 * pow2 (- 49) = (6949617174986097 / 562949953421312 :: rat)"
    by (simp add: pow2_def)
  show "(6949617174986097 / 562949953421312 :: rat) < 2 ^ 1024" by simp
qed

lemma fl_1234_5: "fl (6949617174986097 / 562949953421312 * 100) = Finite (2469 / 2)"
proof (rule fl_positive)
  show "(0::rat) < 6949617174986097 / 562949953421312 * 100" by simp
  show "floor_log2 (6949617174986097 / 562949953421312 * 100) = 10"
    by (simp add: log2_eval)
  show "max (10 - 52) (- 1074) = (- 42 :: int)" by simp
  show "round_half_even (6949617174986097 / 562949953421312 * 100 / pow2 (- 42))
          = 5429388417957888"
    by (simp add: round_eval)
  show "of_int 5429388417957888 * pow2 (- 42) = (2469 / 2 :: rat)" by (simp add: pow2_def)
  show "(2469 / 2 :: rat) < 2 ^ 1024" by simp
qed

lemma fl_12_34: "fl (1234 / 100) = Finite (3473401212609495 / 281474976710656)"
proof (rule fl_positive)
  show "(0::rat) < 1234 / 100" by simp
  show "floor_log2 (1234 / 100) = 3" by (simp add: log2_eval)
  show "max (3 - 52) (- 1074) = (- 49 :: int)" by simp
  show "round_half_even (1234 / 100 / pow2 (- 49)) = 6946802425218990"
    by (simp add: round_eval)
  show "of_int 6946802425218990 * pow2 (- 49) = (3473401212609495 / 281474976710656 :: rat)"
    by (simp add: pow2_def)
  show "(3473401212609495 / 281474976710656 :: rat) < 2 ^ 1024" by simp
qed

lemma fl_12_35: "fl (1235 / 100) = Finite (6952431924753203 / 562949953421312)"
proof (rule fl_positive)
  show "(0::rat) < 1235 / 100" by simp
  show "floor_log2 (1235 / 100) = 3" by (simp add: log2_eval)
  show "max (3 - 52) (- 1074) = (- 49 :: int)" by simp
  show "round_half_even (1235 / 100 / pow2 (- 49)) = 6952431924753203"
    by (simp add: round_eval)
  show "of_int 6952431924753203 * pow2 (- 49) = (6952431924753203 / 562949953421312 :: rat)"
    by (simp add: pow2_def)
  show "(6952431924753203 / 562949953421312 :: rat) < 2 ^ 1024" by simp
qed

lemma rint_1234_5: "rint (Finite (2469 / 2)) = Finite 1234"
  by (simp add: rint_def round_eval)

lemma div_12345: "float_div (Finite 12345) 1000 = Finite (6949617174986097 / 562949953421312)"
  unfolding float_div_def float64.case by (rule fl_12_345)

lemma mul_12_345:
  "float_mul (Finite (6949617174986097 / 562949953421312)) 100 = Finite (2469 / 2)"
  unfolding float_mul_def float64.case by (rule fl_1234_5)

lemma billions_12345: "np_round (float_div (Finite 12345) 1000) 2 = fl (1234 / 100)"
proof -
  have p: "(10::rat) ^ 2 = 100" by simp
  show ?thesis
    unfolding np_round_def p div_12345 mul_12_345 rint_1234_5
    by (simp add: float_div_def)
qed










lemma fl_1234_1235: "fl (1234 / 100) \<noteq> fl (1235 / 100)"
  unfolding fl_12_34 fl_12_35 by simp

lemma float_12345: "float_of_digits ''12345'' = Some (Finite 12345)"
  by (simp add: float_of_digits_def digit_val_def fl_12345)

lemma float_bad: "float_of_digits ''n/a'' = None"
  by (simp add: float_of_digits_def digit_val_def)

subsection \<open>The sample inputs\<close>

lemmas html_eval = find_all_def find_def tag_contains_def em_dash_def
lemmas frame_eval = DataFrame_columns_def table_attribs_def DataFrame_dict_def pandas_value_def
  pd_concat_def
  column_or_nan_def nrows_def records_frame_def

lemma row_dict_xland: "row_dict xland_row = Inr (Some (Text ''Xland'', Text ''12,345''))"
  by (simp add: row_dict_def xland_row_def html_eval)

lemma row_dict_short_row: "row_dict short_row = Inl IndexError"
  by (simp add: row_dict_def short_row_def html_eval)

lemma row_dict_header: "row_dict header_row = Inr None"
  by (simp add: row_dict_def header_row_def html_eval)

lemma row_dict_world: "row_dict world_row = Inr None"
  by (simp add: row_dict_def world_row_def html_eval)

lemma row_dict_dash: "row_dict dash_row = Inr None"
  by (simp add: row_dict_def dash_row_def html_eval)

lemma row_dict_dash_note:
  "row_dict dash_note_row = Inr (Some (Text ''Wland'', Text (em_dash @ '' (est.)'')))"
  by (simp add: row_dict_def dash_note_row_def html_eval)

lemma row_dict_footnote: "row_dict footnote_row = Inr (Some (Text ''Vland'', Text ''7,000''))"
  by (simp add: row_dict_def footnote_row_def html_eval)

lemma row_dict_bad_number: "row_dict bad_number_row = Inr (Some (Text ''Uland'', Text ''n/a''))"
  by (simp add: row_dict_def bad_number_row_def html_eval)

lemma extract_xland:
  "extract_rows [xland_row] (DataFrame_columns table_attribs)
     = Inr (records_frame [(''Xland'', ''12,345'')])"
  by (simp add: row_dict_xland frame_eval)

lemma extract_xland_short:
  "extract_rows [xland_row, short_row] (DataFrame_columns table_attribs) = Inl IndexError"
  by (simp add: row_dict_xland row_dict_short_row frame_eval)

lemma extract_footnote:
  "extract_rows [footnote_row] (DataFrame_columns table_attribs)
     = Inr (records_frame [(''Vland'', ''7,000'')])"
  by (simp add: row_dict_footnote frame_eval)

lemmas sample_rows = xland_row_def short_row_def header_row_def world_row_def dash_row_def
  dash_note_row_def footnote_row_def bad_number_row_def

lemma tbodies_sample:
  "find_all ''tbody'' (page_of [header_row, xland_row, bad_number_row])
     = [Tag ''tbody'' [], Tag ''tbody'' [], Tag ''tbody'' [header_row, xland_row, bad_number_row]]"
  by (simp add: page_of_def find_all_def sample_rows)

lemma rows_sample:
  "find_all ''tr'' (Tag ''tbody'' [header_row, xland_row, bad_number_row])
     = [header_row, xland_row, bad_number_row]"
  by (simp add: find_all_def sample_rows)

lemma extract_rows_sample:
  "extract_rows [header_row, xland_row, bad_number_row] (DataFrame_columns table_attribs)
     = Inr (records_frame [(''Xland'', ''12,345''), (''Uland'', ''n/a'')])"
  by (simp add: row_dict_header row_dict_xland row_dict_bad_number frame_eval)

lemma extract_page_sample:
  "extract_page (page_of [header_row, xland_row, bad_number_row]) table_attribs
     = Inr (records_frame [(''Xland'', ''12,345''), (''Uland'', ''n/a'')])"
proof -
  have "extract_page (page_of [header_row, xland_row, bad_number_row]) table_attribs
          = extract_rows [header_row, xland_row, bad_number_row] (DataFrame_columns table_attribs)"
    by (simp add: extract_page_def Let_def tbodies_sample rows_sample del: extract_rows.simps)
  then show ?thesis by (simp only: extract_rows_sample)
qed


section \<open>The extractor\<close>

text \<open>
  Claim C4: a document whose parsed HTML has fewer than three \<open>tbody\<close> elements makes
  \<open>extract\<close> fail and yield no frame; the exception is the \<open>IndexError\<close> of
  \<^verbatim>\<open>tables[2]\<close>, which the specification calls a StructureError. A document with at
  least three has its third \<open>tbody\<close> element, index 2, selected: the rows processed are
  the \<open>tr\<close> elements of that element.
\<close>

theorem third_tbody_selected:
  "(length (find_all ''tbody'' data) < 3 \<longrightarrow> extract_page data attribs = Inl IndexError)
 \<and> (3 \<le> length (find_all ''tbody'' data) \<longrightarrow>
      extract_page data attribs =
        extract_rows (find_all ''tr'' (find_all ''tbody'' data ! 2)) (DataFrame_columns attribs))"
  by (simp add: extract_page_def Let_def)

theorem third_tbody_selected_witness:
  "length (find_all ''tbody'' two_tables_page) < 3
 \<and> extract_page two_tables_page table_attribs = Inl IndexError
 \<and> 3 \<le> length (find_all ''tbody'' (page_of [header_row, xland_row, bad_number_row]))
 \<and> extract_page (page_of [header_row, xland_row, bad_number_row]) table_attribs
     = Inr (records_frame [(''Xland'', ''12,345''), (''Uland'', ''n/a'')])"
proof -
  have two: "length (find_all ''tbody'' two_tables_page) < 3"
    by (simp add: two_tables_page_def xland_row_def find_all_def)
  have three: "3 \<le> length (find_all ''tbody'' (page_of [header_row, xland_row, bad_number_row]))"
    by (simp add: tbodies_sample)
  have sel: "find_all ''tr'' (find_all ''tbody'' (page_of [header_row, xland_row, bad_number_row]) ! 2)
               = [header_row, xland_row, bad_number_row]"
    by (simp add: tbodies_sample rows_sample)
  from third_tbody_selected [of two_tables_page table_attribs] two
  have a: "extract_page two_tables_page table_attribs = Inl IndexError" by blast
  from third_tbody_selected [of "page_of [header_row, xland_row, bad_number_row]" table_attribs]
    three
  have "extract_page (page_of [header_row, xland_row, bad_number_row]) table_attribs
          = extract_rows
              (find_all ''tr'' (find_all ''tbody'' (page_of [header_row, xland_row, bad_number_row]) ! 2))
              (DataFrame_columns table_attribs)"
    by blast
  then have b: "extract_page (page_of [header_row, xland_row, bad_number_row]) table_attribs
                  = Inr (records_frame [(''Xland'', ''12,345''), (''Uland'', ''n/a'')])"
    by (simp only: sel extract_rows_sample)
  from two a three b show ?thesis by blast
qed

text \<open>
  Claim C10: a row that has data cells, a hyperlink in the first of them, and fewer than
  three of them makes the loop body raise \<open>IndexError\<close> at \<^verbatim>\<open>col[2]\<close>. The row is not
  skipped: whatever rows stand before and after it, \<open>extract\<close> ends in an exception, and
  in this \<open>IndexError\<close> when the rows before it were processed.
\<close>

theorem short_row_raises:
  assumes "find_all ''td'' row = col" "col \<noteq> []" "find ''a'' (col ! 0) \<noteq> None" "length col < 3"
  shows "row_dict row = Inl IndexError
       \<and> (\<exists>e. extract_rows (before @ row # after) df = Inl e)
       \<and> (\<forall>df'. extract_rows before df = Inr df' \<longrightarrow>
             extract_rows (before @ row # after) df = Inl IndexError)"
proof -
  from assms(2) obtain c0 cs where col: "col = c0 # cs" by (cases col) auto
  with assms(3) obtain a where a: "find ''a'' c0 = Some a" by auto
  from assms(4) col have "length cs < 2" by simp
  with assms(1) col a have r: "row_dict row = Inl IndexError"
    by (simp add: row_dict_few_cells)
  have "extract_rows (before @ row # after) df = Inl IndexError"
    if "extract_rows before df = Inr df'" for df'
    using that r by (simp add: extract_rows_append)
  moreover have "\<exists>e. extract_rows (before @ row # after) df = Inl e"
    using r by (cases "extract_rows before df") (simp_all add: extract_rows_append)
  ultimately show ?thesis using r by blast
qed

theorem short_row_raises_witness:
  "find_all ''td'' short_row \<noteq> []
 \<and> find ''a'' (find_all ''td'' short_row ! 0) \<noteq> None
 \<and> length (find_all ''td'' short_row) < 3
 \<and> row_dict short_row = Inl IndexError
 \<and> extract_rows ([xland_row] @ short_row # [dash_row]) (DataFrame_columns table_attribs)
     = Inl IndexError"
proof -
  have cells: "find_all ''td'' short_row
                 = [Tag ''td'' [Tag ''a'' [Text ''Yland'']], Tag ''td'' [Text ''Asia'']]"
    by (simp add: short_row_def find_all_def)
  have h1: "find_all ''td'' short_row \<noteq> []"
    by (simp add: cells)
  have h2: "find ''a'' (find_all ''td'' short_row ! 0) \<noteq> None"
    unfolding cells by (simp add: find_def find_all_def)
  have h3: "length (find_all ''td'' short_row) < 3"
    by (simp add: cells)
  note t = short_row_raises [OF refl h1 h2 h3,
      of "[xland_row]" "[dash_row]" "DataFrame_columns table_attribs"]
  from t have r: "row_dict short_row = Inl IndexError" by blast
  from t extract_xland
  have "extract_rows ([xland_row] @ short_row # [dash_row]) (DataFrame_columns table_attribs)
          = Inl IndexError"
    by blast
  with h1 h2 h3 r show ?thesis by blast
qed

text \<open>
  Claim C3, as the code has it: the missing-data check of line 32, \<^verbatim>\<open>not in col[2]\<close> with
  the em dash on its left, asks whether the marker is one of the children of the third
  cell, a text node that is exactly the em dash. A row with three cells or more and a
  hyperlink in the first is left out exactly when that holds. It is not a substring test
  over the text of the cell.
\<close>

theorem marker_test_is_child_membership:
  assumes "find_all ''td'' row = col" "3 \<le> length col" "find ''a'' (col ! 0) \<noteq> None"
  shows "row_dict row = Inr None \<longleftrightarrow> Text em_dash \<in> set (contents (col ! 2))"
proof -
  from assms(2) obtain c0 c1 c2 cs where col: "col = c0 # c1 # c2 # cs"
    by (cases col; cases "tl col"; cases "tl (tl col)") auto
  with assms(3) obtain a where a: "find ''a'' c0 = Some a" by auto
  from assms(1) col have cells: "find_all ''td'' row = c0 # c1 # c2 # cs" by simp
  show ?thesis
    unfolding row_dict_three_cells [OF cells a] col
    by (simp add: tag_contains_def split: list.splits)
qed

theorem marker_test_is_child_membership_witness:
  "3 \<le> length (find_all ''td'' dash_row)
 \<and> find ''a'' (find_all ''td'' dash_row ! 0) \<noteq> None
 \<and> Text em_dash \<in> set (contents (find_all ''td'' dash_row ! 2))
 \<and> row_dict dash_row = Inr None"
proof -
  have cells: "find_all ''td'' dash_row
                 = [Tag ''td'' [Tag ''a'' [Text ''Zland'']], Tag ''td'' [Text ''Asia''],
                    Tag ''td'' [Text em_dash]]"
    by (simp add: dash_row_def find_all_def)
  have h2: "3 \<le> length (find_all ''td'' dash_row)"
    by (simp add: cells)
  have h3: "find ''a'' (find_all ''td'' dash_row ! 0) \<noteq> None"
    unfolding cells by (simp add: find_def find_all_def)
  have m: "Text em_dash \<in> set (contents (find_all ''td'' dash_row ! 2))"
    by (simp add: cells)
  from marker_test_is_child_membership [OF refl h2 h3] m
  have "row_dict dash_row = Inr None" by blast
  with h2 h3 m show ?thesis by blast
qed

text \<open>
  The claim as the specification words it fails: the third cell of \<open>dash_note_row\<close> holds
  one text, the em dash followed by \<^verbatim>\<open> (est.)\<close>, which contains the marker, and the row is
  extracted.
\<close>

theorem marker_substring_counterexample:
  "row_dict dash_note_row = Inr (Some (Text ''Wland'', Text (em_dash @ '' (est.)'')))
 \<and> extract_rows [dash_note_row] (DataFrame_columns table_attribs)
     = Inr (records_frame [(''Wland'', em_dash @ '' (est.)'')])"
  by (simp add: row_dict_dash_note frame_eval)

text \<open>
  Claim C2, as the code has it. When every row of the table is well formed, the extractor
  yields exactly one record for each row that has at least three data cells, a hyperlink
  in the first and no marker among the children of the third, and none for the other
  rows; the record holds the text that the first hyperlink starts with and the text that
  the third cell starts with; the records stand in row order; and their number is the
  number of rows less the number of rows left out.
\<close>

theorem extract_rows_records:
  assumes "list_all well_formed rows"
  shows "extract_rows rows (DataFrame_columns table_attribs)
           = Inr (records_frame (map record_of (filter emits rows)))
       \<and> length (map record_of (filter emits rows))
           = length rows - length (filter (\<lambda>row. \<not> emits row) rows)"
proof -
  have "extract_rows rows (DataFrame_columns table_attribs)
          = Inr (records_frame (map record_of (filter emits rows)))"
    using extract_rows_well_formed [OF assms, of "[]"] by (simp add: empty_records_frame)
  moreover have "length (map record_of (filter emits rows))
                   = length rows - length (filter (\<lambda>row. \<not> emits row) rows)"
    using filter_count [of emits rows] by simp
  ultimately show ?thesis by (rule conjI)
qed

theorem extract_rows_records_witness:
  "list_all well_formed [header_row, xland_row, world_row, dash_row, footnote_row]
 \<and> extract_rows [header_row, xland_row, world_row, dash_row, footnote_row]
       (DataFrame_columns table_attribs)
     = Inr (records_frame [(''Xland'', ''12,345''), (''Vland'', ''7,000'')])
 \<and> length [(''Xland'', ''12,345''), (''Vland'', ''7,000'')]
     = length [header_row, xland_row, world_row, dash_row, footnote_row]
       - length [header_row, world_row, dash_row]"
proof -
  let ?rows = "[header_row, xland_row, world_row, dash_row, footnote_row]"
  have wf: "list_all well_formed ?rows"
    by (simp add: well_formed_def starts_with_text_def sample_rows html_eval)
  have em: "filter emits ?rows = [xland_row, footnote_row]"
    by (simp add: emits_def sample_rows html_eval)
  have out: "filter (\<lambda>row. \<not> emits row) ?rows = [header_row, world_row, dash_row]"
    by (simp add: emits_def sample_rows html_eval)
  have recs: "map record_of [xland_row, footnote_row]
                = [(''Xland'', ''12,345''), (''Vland'', ''7,000'')]"
    by (simp add: record_of_def first_text_def sample_rows html_eval)
  note t = extract_rows_records [OF wf]
  have a: "extract_rows ?rows (DataFrame_columns table_attribs)
             = Inr (records_frame [(''Xland'', ''12,345''), (''Vland'', ''7,000'')])"
    using t [THEN conjunct1] by (simp only: em recs)
  have b: "length [(''Xland'', ''12,345''), (''Vland'', ''7,000'')]
             = length ?rows - length [header_row, world_row, dash_row]"
    using t [THEN conjunct2] by (simp only: em recs out)
  show ?thesis
    by (rule conjI [OF wf conjI [OF a b]])
qed

text \<open>
  The claim as the specification words it fails twice. A row with a hyperlink and two
  cells is not left out: it ends the extraction, so the row before it yields no record
  either. And the record of \<open>footnote_row\<close> holds \<^verbatim>\<open>7,000\<close>, the first child of the third
  cell, where the text of the cell is \<^verbatim>\<open>7,000[n 1]\<close>.
\<close>

theorem extract_rows_counterexample:
  "extract_rows [xland_row, short_row] (DataFrame_columns table_attribs) = Inl IndexError
 \<and> extract_rows [footnote_row] (DataFrame_columns table_attribs)
     = Inr (records_frame [(''Vland'', ''7,000'')])"
  by (simp only: extract_xland_short extract_footnote)

section \<open>The fetch\<close>




section \<open>The transformer\<close>

lemma transform_records:
  assumes "map (\<lambda>r. float (filter (\<lambda>c. c \<noteq> CHR '','') (snd r))) rs = map Some xs"
  shows "transform float (records_frame rs) =
           Inr ([(''Country'', map (\<lambda>r. Str (fst r)) rs),
                 (''GDP_USD_millions'', map (\<lambda>x. Num (np_round (float_div x 1000) 2)) xs)],
                [(''Country'', map (\<lambda>r. Str (fst r)) rs),
                 (''GDP_USD_billions'', map (\<lambda>x. Num (np_round (float_div x 1000) 2)) xs)])"
proof -
  from assms have "map (\<lambda>g. float (filter (\<lambda>c. c \<noteq> CHR '','') g)) (map snd rs) = map Some xs"
    by (simp add: comp_def)
  from comprehension_to_float [OF this]
  have "comprehension (to_float float) (map (\<lambda>r. Str (snd r)) rs) = Inr xs"
    by (simp add: comp_def)
  then show ?thesis
    by (simp add: transform_def getitem_records_frame Let_def)
       (simp add: records_frame_def setitem_def rename_def comp_def)
qed

lemma transform_xland:
  assumes "float ''12345'' = Some (Finite 12345)"
  shows "transform float (records_frame [(''Xland'', ''12,345'')]) =
           Inr ([(''Country'', [Str ''Xland'']), (''GDP_USD_millions'', [Num (fl (1234 / 100))])],
                [(''Country'', [Str ''Xland'']), (''GDP_USD_billions'', [Num (fl (1234 / 100))])])"
proof -
  have "map (\<lambda>r. float (filter (\<lambda>c. c \<noteq> CHR '','') (snd r))) [(''Xland'', ''12,345'')]
          = map Some [Finite 12345]"
    using assms by simp
  from transform_records [OF this] show ?thesis
    by (simp add: billions_12345)
qed

lemma main_transform_raises:
  assumes "extract_py srv hp url table_attribs
             (log_progress ts ''Preliminaries complete. Initiating ETL process'' w) = (Inr df, w2)"
    and "transform float df = Inl e"
  shows "main srv hp float read_sql ts w =
           (Some e, log_progress ts
                      ''Data extraction complete. Initiating Transformation process'' w2)"
  using assms by (simp add: main_def Let_def)



text \<open>
  Claim C9: when the raw GDP string of some record, without its commas, is not a numeric
  literal (\<^verbatim>\<open>float\<close> raises \<open>ValueError\<close>, the ParseError of the specification), \<open>transform\<close>
  raises that exception. Nothing catches it: a run in which \<open>extract\<close> has returned such
  a frame ends with the exception after the second log entry, with no file or table
  written and no final entry in the log.
\<close>

theorem unparsable_gdp_ends_run:
  assumes "getitem df ''GDP_USD_millions'' = Inr (map Str gs)" and "g \<in> set gs"
    and "float (filter (\<lambda>c. c \<noteq> CHR '','') g) = None"
  shows "transform float df = Inl ValueError
       \<and> (\<forall>w2. extract_py srv hp url table_attribs
                  (log_progress ts ''Preliminaries complete. Initiating ETL process'' w)
                  = (Inr df, w2) \<longrightarrow>
             main srv hp float read_sql ts w =
               (Some ValueError,
                log_progress ts
                  ''Data extraction complete. Initiating Transformation process'' w2))"
proof -
  have t: "transform float df = Inl ValueError"
    using assms by (rule transform_ValueError)
  then show ?thesis
    by (simp add: main_transform_raises)
qed

theorem unparsable_gdp_ends_run_witness:
  "getitem (records_frame [(''Xland'', ''12,345''), (''Uland'', ''n/a'')]) ''GDP_USD_millions''
     = Inr (map Str [''12,345'', ''n/a''])
 \<and> ''n/a'' \<in> set [''12,345'', ''n/a'']
 \<and> float_of_digits (filter (\<lambda>c. c \<noteq> CHR '','') ''n/a'') = None
 \<and> transform float_of_digits (records_frame [(''Xland'', ''12,345''), (''Uland'', ''n/a'')])
     = Inl ValueError
 \<and> main (answering 200 ''<html>'') (parsed_as (page_of [header_row, xland_row, bad_number_row]))
       float_of_digits no_rows still_clock empty_world
     = (Some ValueError,
        \<lparr>requests_sent = [url],
         log_file =
           [''2023-Sep-02-18:53:26 : Preliminaries complete. Initiating ETL process'' @ [CHR 0x0A],
            ''2023-Sep-02-18:53:26 : Data extraction complete. Initiating Transformation process''
              @ [CHR 0x0A]],
         csv_files = Map.empty, db_tables = Map.empty\<rparr>)"
proof -
  let ?df = "records_frame [(''Xland'', ''12,345''), (''Uland'', ''n/a'')]"
  let ?w1 = "log_progress still_clock ''Preliminaries complete. Initiating ETL process'' empty_world"
  have h1: "getitem ?df ''GDP_USD_millions'' = Inr (map Str [''12,345'', ''n/a''])"
    by (simp add: getitem_records_frame)
  have h2: "''n/a'' \<in> set [''12,345'', ''n/a'']"
    by simp
  have h3: "float_of_digits (filter (\<lambda>c. c \<noteq> CHR '','') ''n/a'') = None"
    by (simp add: float_bad)
  have ex: "extract_py (answering 200 ''<html>'')
              (parsed_as (page_of [header_row, xland_row, bad_number_row])) url table_attribs ?w1
              = (Inr ?df, ?w1\<lparr>requests_sent := requests_sent ?w1 @ [url]\<rparr>)"
    by (simp add: extract_py_def requests_get_def answering_def parsed_as_def extract_page_sample)
  note t = unparsable_gdp_ends_run [where float = float_of_digits and df = ?df
        and gs = "[''12,345'', ''n/a'']" and g = "''n/a''"
        and srv = "answering 200 ''<html>''"
        and hp = "parsed_as (page_of [header_row, xland_row, bad_number_row])"
        and ts = still_clock and w = empty_world and read_sql = no_rows, OF h1 h2 h3]
  from t have a: "transform float_of_digits ?df = Inl ValueError"
    by blast
  from t ex
  have "main (answering 200 ''<html>'') (parsed_as (page_of [header_row, xland_row, bad_number_row]))
          float_of_digits no_rows still_clock empty_world
          = (Some ValueError,
             log_progress still_clock
               ''Data extraction complete. Initiating Transformation process''
               (?w1\<lparr>requests_sent := requests_sent ?w1 @ [url]\<rparr>))"
    by blast
  then have b: "main (answering 200 ''<html>'')
                  (parsed_as (page_of [header_row, xland_row, bad_number_row]))
                  float_of_digits no_rows still_clock empty_world
      = (Some ValueError,
         \<lparr>requests_sent = [url],
          log_file =
            [''2023-Sep-02-18:53:26 : Preliminaries complete. Initiating ETL process'' @ [CHR 0x0A],
             ''2023-Sep-02-18:53:26 : Data extraction complete. Initiating Transformation process''
               @ [CHR 0x0A]],
          csv_files = Map.empty, db_tables = Map.empty\<rparr>)"
    by (simp add: log_progress_def empty_world_def still_clock_def)
  from h1 h2 h3 a b show ?thesis by blast
qed

text \<open>
  Claim C6, as the code has it. The result of \<open>transform\<close> depends on its argument alone,
  and the frame passed in keeps its column names and every column but one: lines 46 and
  47 assign the converted numbers to its column \<open>GDP_USD_millions\<close>, in place. The frame
  returned is a new one, the changed frame with that column renamed. When \<open>transform\<close>
  raises, it does so before line 46 and the frame passed in is as it was.
\<close>

theorem transform_frame_effect:
  assumes "transform float df = Inr (df', out)"
  shows "map fst df' = map fst df
       \<and> (\<forall>n. n \<noteq> ''GDP_USD_millions'' \<longrightarrow> map_of df' n = map_of df n)
       \<and> (\<exists>column xs. getitem df ''GDP_USD_millions'' = Inr column
             \<and> comprehension (to_float float) column = Inr xs
             \<and> map_of df' ''GDP_USD_millions''
                 = Some (map (\<lambda>x. Num (np_round (float_div x 1000) 2)) xs))
       \<and> out = rename df' ''GDP_USD_millions'' ''GDP_USD_billions''"
proof -
  from assms obtain column xs where col: "getitem df ''GDP_USD_millions'' = Inr column"
    and xs: "comprehension (to_float float) column = Inr xs"
    by (auto simp: transform_def split: sum.splits)
  let ?vals = "map Num (map (\<lambda>x. np_round (float_div x 1000) 2) xs)"
  from assms col xs have df': "df' = setitem df ''GDP_USD_millions'' ?vals"
    by (auto simp: transform_def Let_def)
  from assms col xs have out: "out = rename df' ''GDP_USD_millions'' ''GDP_USD_billions''"
    by (auto simp: transform_def Let_def)
  have name: "''GDP_USD_millions'' \<in> set (map fst df)"
    using col by (rule getitem_Inr_name)
  have "map fst df' = map fst df"
    unfolding df' using name by (rule names_setitem)
  moreover have "map_of df' n = map_of df n" if "n \<noteq> ''GDP_USD_millions''" for n
    unfolding df' using that by (simp add: map_of_setitem [OF name])
  moreover have "map_of df' ''GDP_USD_millions''
                   = Some (map (\<lambda>x. Num (np_round (float_div x 1000) 2)) xs)"
    unfolding df' by (simp add: map_of_setitem [OF name] comp_def)
  ultimately show ?thesis using col xs out by blast
qed

theorem transform_frame_effect_witness:
  "transform float_of_digits (records_frame [(''Xland'', ''12,345'')]) =
     Inr ([(''Country'', [Str ''Xland'']), (''GDP_USD_millions'', [Num (fl (1234 / 100))])],
          [(''Country'', [Str ''Xland'']), (''GDP_USD_billions'', [Num (fl (1234 / 100))])])
 \<and> map fst [(''Country'', [Str ''Xland'']), (''GDP_USD_millions'', [Num (fl (1234 / 100))])]
     = map fst (records_frame [(''Xland'', ''12,345'')])
 \<and> map_of [(''Country'', [Str ''Xland'']), (''GDP_USD_millions'', [Num (fl (1234 / 100))])]
       ''Country''
     = map_of (records_frame [(''Xland'', ''12,345'')]) ''Country''
 \<and> [(''Country'', [Str ''Xland'']), (''GDP_USD_billions'', [Num (fl (1234 / 100))])]
     = rename [(''Country'', [Str ''Xland'']), (''GDP_USD_millions'', [Num (fl (1234 / 100))])]
         ''GDP_USD_millions'' ''GDP_USD_billions''"
proof -
  have h: "transform float_of_digits (records_frame [(''Xland'', ''12,345'')]) =
     Inr ([(''Country'', [Str ''Xland'']), (''GDP_USD_millions'', [Num (fl (1234 / 100))])],
          [(''Country'', [Str ''Xland'']), (''GDP_USD_billions'', [Num (fl (1234 / 100))])])"
    using float_12345 by (rule transform_xland)
  note t = transform_frame_effect [OF h]
  note a = t [THEN conjunct1]
  note others = t [THEN conjunct2, THEN conjunct1, rule_format]
  note c = t [THEN conjunct2, THEN conjunct2, THEN conjunct2]
  have ne: "''Country'' \<noteq> ''GDP_USD_millions''"
    by simp
  note b = others [OF ne]
  show ?thesis
    by (rule conjI [OF h conjI [OF a conjI [OF b c]]])
qed

text \<open>
  The claim as the specification words it fails: after the call on the frame of the one
  record (Xland, \<^verbatim>\<open>12,345\<close>), the frame passed in holds a number in its column
  \<open>GDP_USD_millions\<close>, where it held the string.
\<close>

theorem transform_mutates_counterexample:
  "transform float_of_digits (records_frame [(''Xland'', ''12,345'')]) =
     Inr ([(''Country'', [Str ''Xland'']), (''GDP_USD_millions'', [Num (fl (1234 / 100))])],
          [(''Country'', [Str ''Xland'']), (''GDP_USD_billions'', [Num (fl (1234 / 100))])])
 \<and> [(''Country'', [Str ''Xland'']), (''GDP_USD_millions'', [Num (fl (1234 / 100))])]
     \<noteq> records_frame [(''Xland'', ''12,345'')]"
proof -
  have "transform float_of_digits (records_frame [(''Xland'', ''12,345'')]) =
     Inr ([(''Country'', [Str ''Xland'']), (''GDP_USD_millions'', [Num (fl (1234 / 100))])],
          [(''Country'', [Str ''Xland'']), (''GDP_USD_billions'', [Num (fl (1234 / 100))])])"
    using float_12345 by (rule transform_xland)
  moreover have "[(''Country'', [Str ''Xland'']), (''GDP_USD_millions'', [Num (fl (1234 / 100))])]
     \<noteq> records_frame [(''Xland'', ''12,345'')]"
    by (simp add: records_frame_def)
  ultimately show ?thesis by (rule conjI)
qed

text \<open>
  Claim C5, as the code has it: the row whose first cell links to Xland and whose third
  cell is \<^verbatim>\<open>12,345\<close> yields the record (Xland, \<^verbatim>\<open>12,345\<close>), and \<open>transform\<close> turns it into
  Xland with 12.34, the double nearest to 12.34. The quotient 12345 / 1000 is the double
  next above 12.345; \<^verbatim>\<open>np.round\<close> multiplies it by 100, which gives 1234.5 exactly,
  rounds that to the even integer 1234, and divides by 100.
\<close>

theorem xland_scenario:
  assumes "float ''12345'' = Some (Finite 12345)"
  shows "extract_rows [xland_row] (DataFrame_columns table_attribs)
           = Inr (records_frame [(''Xland'', ''12,345'')])
       \<and> (\<exists>df'. transform float (records_frame [(''Xland'', ''12,345'')]) =
             Inr (df', [(''Country'', [Str ''Xland'']),
                        (''GDP_USD_billions'', [Num (fl (1234 / 100))])]))
       \<and> fl (1234 / 100) = Finite (3473401212609495 / 281474976710656)"
proof -
  have "\<exists>df'. transform float (records_frame [(''Xland'', ''12,345'')]) =
          Inr (df', [(''Country'', [Str ''Xland'']),
                     (''GDP_USD_billions'', [Num (fl (1234 / 100))])])"
    by (rule exI) (rule transform_xland [where float = float, OF assms])
  then show ?thesis
    by (intro conjI) (rule extract_xland, assumption, rule fl_12_34)
qed

theorem xland_scenario_witness:
  "float_of_digits ''12345'' = Some (Finite 12345)
 \<and> extract_rows [xland_row] (DataFrame_columns table_attribs)
     = Inr (records_frame [(''Xland'', ''12,345'')])
 \<and> (\<exists>df'. transform float_of_digits (records_frame [(''Xland'', ''12,345'')]) =
       Inr (df', [(''Country'', [Str ''Xland'']),
                  (''GDP_USD_billions'', [Num (fl (1234 / 100))])]))"
proof -
  note t = xland_scenario [where float = float_of_digits, OF float_12345]
  show ?thesis
    by (rule conjI [OF float_12345 conjI [OF t [THEN conjunct1] t [THEN conjunct2, THEN conjunct1]]])
qed

text \<open>
  The claim as the specification words it fails: the number that \<open>transform\<close> yields for
  Xland is not the double nearest to 12.35.
\<close>

theorem xland_scenario_counterexample:
  "transform float_of_digits (records_frame [(''Xland'', ''12,345'')]) =
     Inr ([(''Country'', [Str ''Xland'']), (''GDP_USD_millions'', [Num (fl (1234 / 100))])],
          [(''Country'', [Str ''Xland'']), (''GDP_USD_billions'', [Num (fl (1234 / 100))])])
 \<and> fl (1234 / 100) \<noteq> fl (1235 / 100)"
  by (rule conjI [OF transform_xland [where float = float_of_digits, OF float_12345]
        fl_1234_1235])

section \<open>The query\<close>

text \<open>
  Claim C8: \<open>run_query\<close> executes the read query and returns the resulting rows to its
  caller. The code does not: whatever rows \<^verbatim>\<open>pd.read_sql\<close> yields, the call returns
  \<open>None\<close>, the rows stay in the local name \<open>query_output\<close>, and nothing is printed
  (the docstring of \<open>run_query\<close> says that it prints the result).
\<close>

theorem run_query_returns_None:
  "run_query (\<lambda>q c. Inr query_output) statement connection = Inr None"
  by (simp add: run_query_def)

end
